theory Spec2Isabelle
  imports Complex_Main
begin

section \<open>Numbers, constants and the weather record\<close>

text \<open>
  The program is a single page component that exists in two revisions:
  \<^verbatim>\<open>src/unnamed/part_000\<close> (additive wind / humidity / time-of-day adjustment) and
  \<^verbatim>\<open>src/app/page.tsx\<close> (wind-chill / heat-index formula). Both declare the same
  constants, the same \<^verbatim>\<open>WeatherData\<close> interface and the same \<^verbatim>\<open>shouldTakeCoat\<close>.

  A JavaScript \<^verbatim>\<open>number\<close> is modelled twice. The records and the functions on
  them work on exact \<^typ>\<open>real\<close> numbers: there the literal \<^verbatim>\<open>0.1\<close> is the fraction
  one tenth and no operation rounds. The perceived temperature of part_000 is modelled a
  second time on IEEE 754 binary64 numbers (section \<open>Numbers as binary64\<close>), where every
  operation rounds to the nearest representable number; the two agree except where the
  exact result lies at or next to a tie of \<^verbatim>\<open>Math.round\<close>. The hour comes from
  \<^verbatim>\<open>new Date().getHours()\<close>, an integer, and is an \<^typ>\<open>int\<close> passed in as an argument.
\<close>

definition HIGH_WIND_THRESHOLD :: real where
  "HIGH_WIND_THRESHOLD = 20"

definition HIGH_HUMIDITY_THRESHOLD :: real where
  "HIGH_HUMIDITY_THRESHOLD = 70"

definition MORNING_HOUR :: int where
  "MORNING_HOUR = 6"

definition EVENING_HOUR :: int where
  "EVENING_HOUR = 18"

record WeatherData =
  temperature :: real
  isRainy :: bool
  windSpeed :: real
  humidity :: real
  hour :: int
  perceivedTemp :: real

text \<open>
  \<^verbatim>\<open>Math.round(x)\<close>: the integer closest to \<open>x\<close>, a tie going to the larger one
  (\<^verbatim>\<open>Math.round(2.5) = 3\<close>, \<^verbatim>\<open>Math.round(-2.5) = -2\<close>). The result is again a number.
\<close>

definition Math_round :: "real \<Rightarrow> real" where
  "Math_round x = of_int \<lfloor>x + 1 / 2\<rfloor>"

text \<open>\<^verbatim>\<open>a ?? b\<close>: the left operand unless it is \<^verbatim>\<open>null\<close> or \<^verbatim>\<open>undefined\<close>.\<close>

definition nullish :: "'a option \<Rightarrow> 'a \<Rightarrow> 'a" where
  "nullish a b = (case a of None \<Rightarrow> b | Some v \<Rightarrow> v)"

section \<open>The coat decision\<close>

text \<open>
  \<^verbatim>\<open>shouldTakeCoat\<close> (part_000 lines 218-233, page.tsx lines 141-156, identical). It
  reads the component state \<^verbatim>\<open>weather\<close>, which is \<^verbatim>\<open>null\<close> until a forecast has
  arrived; the state is the argument here. The local object \<^verbatim>\<open>conditions\<close> is the
  four \<open>let\<close>-bound flags. The function returns a boolean and nothing else.
\<close>

definition shouldTakeCoat :: "WeatherData option \<Rightarrow> bool" where
  "shouldTakeCoat weather =
     (case weather of
        None \<Rightarrow> False
      | Some w \<Rightarrow>
          (let isCold = perceivedTemp w < 15;
               isRainyC = isRainy w;
               isWindy = windSpeed w > HIGH_WIND_THRESHOLD;
               isNightTime = (hour w < MORNING_HOUR \<or> hour w > EVENING_HOUR)
           in isCold \<or> isRainyC \<or>
              (isWindy \<and> perceivedTemp w < 20) \<or>
              (isNightTime \<and> perceivedTemp w < 18)))"

section \<open>The normalizer of part_000: additive adjustments\<close>

text \<open>
  The messages of the \<^verbatim>\<open>Error\<close> objects the two revisions throw. Whatever is thrown
  inside the \<^verbatim>\<open>try\<close> block is caught and replaced by
  \<^verbatim>\<open>'Failed to fetch weather data'\<close>.
\<close>

datatype error =
  NoWeatherDataAvailable
  | IncompleteWeatherData
  | InvalidWeatherDataStructure
  | FailedToFetchWeatherData

text \<open>
  part_000 lines 77-108, on the four numbers extracted in lines 69-72 and the hour
  of line 75. The variable \<^verbatim>\<open>perceivedTemp\<close> is assigned three times in sequence;
  each \<open>let\<close> is one of the three \<^verbatim>\<open>if\<close> statements. Rounding happens in the
  returned object only. The operators here are those of exact arithmetic; the same
  statements with the rounding operators of the language are
  \<open>getWeatherForecast_perceivedTemp64\<close> below.
\<close>

definition getWeatherForecast_body ::
  "real \<Rightarrow> real \<Rightarrow> real \<Rightarrow> real \<Rightarrow> int \<Rightarrow> WeatherData" where
  "getWeatherForecast_body temp precip wind humid currentHour =
     (let perceivedTemp = temp;
          perceivedTemp =
            (if wind > HIGH_WIND_THRESHOLD
             then perceivedTemp - (wind - HIGH_WIND_THRESHOLD) * 0.1
             else perceivedTemp);
          perceivedTemp =
            (if humid > HIGH_HUMIDITY_THRESHOLD
             then (if temp > 20
                   then perceivedTemp + (humid - HIGH_HUMIDITY_THRESHOLD) * 0.1
                   else perceivedTemp - (humid - HIGH_HUMIDITY_THRESHOLD) * 0.05)
             else perceivedTemp);
          perceivedTemp =
            (if currentHour < MORNING_HOUR \<or> currentHour > EVENING_HOUR
             then perceivedTemp - 2
             else perceivedTemp)
      in \<lparr>temperature = Math_round temp,
          isRainy = (precip > 0),
          windSpeed = Math_round wind,
          humidity = Math_round humid,
          hour = currentHour,
          perceivedTemp = Math_round perceivedTemp\<rparr>)"

text \<open>
  part_000 lines 56-72: \<^verbatim>\<open>response.current()\<close> may be null; a present one is
  modelled by what its \<^verbatim>\<open>variables()\<close> returns, which may be null as well. An entry
  of the array is \<open>None\<close> when \<^verbatim>\<open>variables[i]?.value()\<close> is null or undefined.
  The reads \<open>variables ! i\<close> happen only after the length check.
\<close>

definition getWeatherForecast_try ::
  "real option list option option \<Rightarrow> int \<Rightarrow> error + WeatherData" where
  "getWeatherForecast_try current currentHour =
     (case current of
        None \<Rightarrow> Inl NoWeatherDataAvailable
      | Some None \<Rightarrow> Inl IncompleteWeatherData
      | Some (Some variables) \<Rightarrow>
          if length variables < 4 then Inl IncompleteWeatherData
          else
            (let temp = nullish (variables ! 0) 0;
                 precip = nullish (variables ! 1) 0;
                 wind = nullish (variables ! 2) 0;
                 humid = nullish (variables ! 3) 0
             in Inr (getWeatherForecast_body temp precip wind humid currentHour)))"

text \<open>The \<^verbatim>\<open>catch\<close> clause of part_000 lines 109-112.\<close>

definition getWeatherForecast ::
  "real option list option option \<Rightarrow> int \<Rightarrow> error + WeatherData" where
  "getWeatherForecast current currentHour =
     (case getWeatherForecast_try current currentHour of
        Inl e \<Rightarrow> Inl FailedToFetchWeatherData
      | Inr w \<Rightarrow> Inr w)"

section \<open>The normalizer of page.tsx: wind chill and heat index\<close>

text \<open>
  The object \<^verbatim>\<open>data.current\<close> of the parsed response; each field may be absent.
\<close>

record current_weather =
  temperature_2m :: "real option"
  precipitation :: "real option"
  windspeed_10m :: "real option"
  relativehumidity_2m :: "real option"

text \<open>
  page.tsx lines 74-97. \<^verbatim>\<open>Math.pow\<close> is a built-in of the language with a real
  exponent here; it is the parameter \<open>pow\<close>. The first assignment rounds the raw
  temperature before anything else; the two \<^verbatim>\<open>if\<close> statements overwrite it.
\<close>

definition getWeatherForecast_page_body ::
  "(real \<Rightarrow> real \<Rightarrow> real) \<Rightarrow> real \<Rightarrow> real \<Rightarrow> real \<Rightarrow> real \<Rightarrow> int \<Rightarrow> WeatherData" where
  "getWeatherForecast_page_body pow temp precip wind humid currentHour =
     (let perceivedTemp = Math_round temp;
          perceivedTemp =
            (if temp < 10
             then Math_round (13.12 + 0.6215 * temp - 11.37 * pow wind 0.16
                              + 0.3965 * temp * pow wind 0.16)
             else perceivedTemp);
          perceivedTemp =
            (if temp > 27
             then (let e = (humid / 100) * 6.11 * pow 10 ((7.5 * temp) / (237.7 + temp))
                   in Math_round (temp + 0.5555 * (e - 10)))
             else perceivedTemp)
      in \<lparr>temperature = Math_round temp,
          isRainy = (precip > 0),
          windSpeed = Math_round wind,
          humidity = Math_round humid,
          hour = currentHour,
          perceivedTemp = perceivedTemp\<rparr>)"

text \<open>page.tsx lines 60-72, from the parsed response on.\<close>

definition getWeatherForecast_page_try ::
  "(real \<Rightarrow> real \<Rightarrow> real) \<Rightarrow> current_weather option \<Rightarrow> int \<Rightarrow> error + WeatherData" where
  "getWeatherForecast_page_try pow current currentHour =
     (case current of
        None \<Rightarrow> Inl InvalidWeatherDataStructure
      | Some c \<Rightarrow>
          (let temp = nullish (temperature_2m c) 0;
               precip = nullish (precipitation c) 0;
               wind = nullish (windspeed_10m c) 0;
               humid = nullish (relativehumidity_2m c) 0
           in Inr (getWeatherForecast_page_body pow temp precip wind humid currentHour)))"

text \<open>The \<^verbatim>\<open>catch\<close> clause of page.tsx lines 98-101.\<close>

definition getWeatherForecast_page ::
  "(real \<Rightarrow> real \<Rightarrow> real) \<Rightarrow> current_weather option \<Rightarrow> int \<Rightarrow> error + WeatherData" where
  "getWeatherForecast_page pow current currentHour =
     (case getWeatherForecast_page_try pow current currentHour of
        Inl e \<Rightarrow> Inl FailedToFetchWeatherData
      | Inr w \<Rightarrow> Inr w)"

section \<open>Numbers as binary64\<close>

text \<open>
  A \<^verbatim>\<open>number\<close> of the language is an IEEE 754 binary64 value: \<open>Finite m e\<close> stands for
  \<open>m * 2 ^ e\<close>, and a finite binary64 number is one that can be written with
  \<open>\<bar>m\<bar> < 2 ^ 53\<close> and \<open>- 1074 \<le> e \<le> 971\<close>; besides there are the two infinities and
  NaN. The sign of zero, which no comparison of the program can see, is not kept.
\<close>

datatype binary64 = Finite int int | PosInfinity | NegInfinity | NaN

text \<open>The number of binary digits of a positive integer.\<close>

function bitlen :: "int \<Rightarrow> int" where
  "bitlen m = (if m \<le> 0 then 0 else 1 + bitlen (m div 2))"
  by pat_completeness auto
termination
  by (relation "measure nat") auto

declare bitlen.simps [simp del]

text \<open>
  \<open>m / 2 ^ s\<close> rounded to the nearest integer, a tie going to the even neighbour: the
  rounding mode of every arithmetic operation of the language.
\<close>

definition round_ties_even :: "int \<Rightarrow> nat \<Rightarrow> int" where
  "round_ties_even m s =
     (let q = m div 2 ^ s; r = m mod 2 ^ s
      in if 2 * r > 2 ^ s \<or> (2 * r = 2 ^ s \<and> q mod 2 = 1) then q + 1 else q)"

text \<open>A rounded result of magnitude \<open>2 ^ 1024\<close> or more overflows to an infinity.\<close>

definition finite_or_infinity :: "int \<Rightarrow> int \<Rightarrow> binary64" where
  "finite_or_infinity m e =
     (if bitlen \<bar>m\<bar> + e > 1024
      then (if m < 0 then NegInfinity else PosInfinity)
      else Finite m e)"

text \<open>
  The exact value \<open>m * 2 ^ e\<close> rounded to binary64: to 53 significant binary digits, or
  to a multiple of \<open>2 ^ - 1074\<close> where that is coarser (gradual underflow). A value
  that needs no rounding is returned as it is.
\<close>

definition round_binary64 :: "int \<Rightarrow> int \<Rightarrow> binary64" where
  "round_binary64 m e =
     (let t = max (e + bitlen \<bar>m\<bar> - 53) (- 1074)
      in if t \<le> e then finite_or_infinity m e
         else finite_or_infinity (round_ties_even m (nat (t - e))) t)"

text \<open>\<^verbatim>\<open>x + y\<close>: the exact sum, rounded; the special values as IEEE 754 has them.\<close>

fun fadd :: "binary64 \<Rightarrow> binary64 \<Rightarrow> binary64" where
  "fadd (Finite m1 e1) (Finite m2 e2) =
     (let e = min e1 e2
      in round_binary64 (m1 * 2 ^ nat (e1 - e) + m2 * 2 ^ nat (e2 - e)) e)"
| "fadd NaN y = NaN"
| "fadd x NaN = NaN"
| "fadd PosInfinity NegInfinity = NaN"
| "fadd NegInfinity PosInfinity = NaN"
| "fadd PosInfinity y = PosInfinity"
| "fadd x PosInfinity = PosInfinity"
| "fadd NegInfinity y = NegInfinity"
| "fadd x NegInfinity = NegInfinity"

fun fneg :: "binary64 \<Rightarrow> binary64" where
  "fneg (Finite m e) = Finite (- m) e"
| "fneg PosInfinity = NegInfinity"
| "fneg NegInfinity = PosInfinity"
| "fneg NaN = NaN"

text \<open>\<^verbatim>\<open>x - y\<close>.\<close>

definition fsub :: "binary64 \<Rightarrow> binary64 \<Rightarrow> binary64" where
  "fsub x y = fadd x (fneg y)"

fun fsign :: "binary64 \<Rightarrow> int" where
  "fsign (Finite m e) = sgn m"
| "fsign PosInfinity = 1"
| "fsign NegInfinity = - 1"
| "fsign NaN = 0"

text \<open>\<^verbatim>\<open>x * y\<close>: the exact product, rounded; an infinity times zero is NaN.\<close>

fun fmul :: "binary64 \<Rightarrow> binary64 \<Rightarrow> binary64" where
  "fmul (Finite m1 e1) (Finite m2 e2) = round_binary64 (m1 * m2) (e1 + e2)"
| "fmul NaN y = NaN"
| "fmul x NaN = NaN"
| "fmul x y =
     (if fsign x * fsign y = 0 then NaN
      else if fsign x * fsign y < 0 then NegInfinity else PosInfinity)"

text \<open>\<^verbatim>\<open>x < y\<close>; \<^verbatim>\<open>x > y\<close> is \<open>fless y x\<close>. Every comparison with NaN is false.\<close>

fun fless :: "binary64 \<Rightarrow> binary64 \<Rightarrow> bool" where
  "fless (Finite m1 e1) (Finite m2 e2) =
     (let e = min e1 e2 in m1 * 2 ^ nat (e1 - e) < m2 * 2 ^ nat (e2 - e))"
| "fless NaN y = False"
| "fless x NaN = False"
| "fless NegInfinity NegInfinity = False"
| "fless NegInfinity y = True"
| "fless PosInfinity y = False"
| "fless x PosInfinity = True"
| "fless x NegInfinity = False"

text \<open>
  \<^verbatim>\<open>Math.round(x)\<close> on binary64: \<open>\<lfloor>x + 1 / 2\<rfloor>\<close> taken exactly, which is
  \<open>(2 * m + 2 ^ k) div 2 ^ (k + 1)\<close> for \<open>x = m / 2 ^ k\<close>; a number without fractional
  digits, an infinity and NaN are returned unchanged.
\<close>

fun Math_round64 :: "binary64 \<Rightarrow> binary64" where
  "Math_round64 (Finite m e) =
     (if e \<ge> 0 then Finite m e
      else Finite ((2 * m + 2 ^ nat (- e)) div 2 ^ nat (1 - e)) 0)"
| "Math_round64 x = x"

text \<open>
  The literals \<^verbatim>\<open>0.1\<close> and \<^verbatim>\<open>0.05\<close> denote the binary64 numbers nearest to one tenth
  and one twentieth, \<open>3602879701896397 / 2 ^ 55\<close> and \<open>3602879701896397 / 2 ^ 56\<close>.
\<close>

definition literal_0_1 :: binary64 where
  "literal_0_1 = Finite 3602879701896397 (- 55)"

definition literal_0_05 :: binary64 where
  "literal_0_05 = Finite 3602879701896397 (- 56)"

definition HIGH_WIND_THRESHOLD64 :: binary64 where
  "HIGH_WIND_THRESHOLD64 = Finite 20 0"

definition HIGH_HUMIDITY_THRESHOLD64 :: binary64 where
  "HIGH_HUMIDITY_THRESHOLD64 = Finite 70 0"

text \<open>The real number \<open>m * 2 ^ e\<close>, to state how close a binary64 number is to a fraction.\<close>

definition dyadic :: "int \<Rightarrow> int \<Rightarrow> real" where
  "dyadic m e = (if e \<ge> 0 then of_int m * 2 ^ nat e else of_int m / 2 ^ nat (- e))"

text \<open>
  part_000 lines 77-99 and the \<^verbatim>\<open>perceivedTemp\<close> field of line 107 on binary64
  numbers: the same statements as in \<open>getWeatherForecast_body\<close>, each operator being
  the rounding operation of the language.
\<close>

definition getWeatherForecast_perceivedTemp64 ::
  "binary64 \<Rightarrow> binary64 \<Rightarrow> binary64 \<Rightarrow> int \<Rightarrow> binary64" where
  "getWeatherForecast_perceivedTemp64 temp wind humid currentHour =
     (let perceivedTemp = temp;
          perceivedTemp =
            (if fless HIGH_WIND_THRESHOLD64 wind
             then fsub perceivedTemp (fmul (fsub wind HIGH_WIND_THRESHOLD64) literal_0_1)
             else perceivedTemp);
          perceivedTemp =
            (if fless HIGH_HUMIDITY_THRESHOLD64 humid
             then (if fless (Finite 20 0) temp
                   then fadd perceivedTemp
                          (fmul (fsub humid HIGH_HUMIDITY_THRESHOLD64) literal_0_1)
                   else fsub perceivedTemp
                          (fmul (fsub humid HIGH_HUMIDITY_THRESHOLD64) literal_0_05))
             else perceivedTemp);
          perceivedTemp =
            (if currentHour < MORNING_HOUR \<or> currentHour > EVENING_HOUR
             then fsub perceivedTemp (Finite 2 0)
             else perceivedTemp)
      in Math_round64 perceivedTemp)"

section \<open>The specification's wording, for comparison with the code\<close>

text \<open>
  The perceived-temperature algorithm as the specification words it: start from the
  raw temperature, subtract the wind term, add or subtract the humidity term, subtract
  the time-of-day term, and round the result to the nearest integer. Each term is a
  definition of its own, with the thresholds written as the numbers of the text.
\<close>

definition windAdjustment_spec :: "real \<Rightarrow> real" where
  "windAdjustment_spec wind = (if wind > 20 then (wind - 20) * 0.1 else 0)"

definition humidityAdjustment_spec :: "real \<Rightarrow> real \<Rightarrow> real" where
  "humidityAdjustment_spec temp humid =
     (if humid > 70
      then (if temp > 20 then (humid - 70) * 0.1 else - ((humid - 70) * 0.05))
      else 0)"

definition timeOfDayAdjustment_spec :: "int \<Rightarrow> real" where
  "timeOfDayAdjustment_spec h = (if h < 6 \<or> h > 18 then 2 else 0)"

definition perceivedTemperature_spec :: "real \<Rightarrow> real \<Rightarrow> real \<Rightarrow> int \<Rightarrow> int" where
  "perceivedTemperature_spec temp wind humid h =
     round (temp - windAdjustment_spec wind + humidityAdjustment_spec temp humid
            - timeOfDayAdjustment_spec h)"

text \<open>
  The same algorithm, step by step as the specification lists it, with the arithmetic
  of the language: each step takes the running perceived temperature \<open>x\<close> and
  returns the next one.
\<close>

definition windStep_spec64 :: "binary64 \<Rightarrow> binary64 \<Rightarrow> binary64" where
  "windStep_spec64 wind x =
     (if fless (Finite 20 0) wind
      then fsub x (fmul (fsub wind (Finite 20 0)) literal_0_1)
      else x)"

definition humidityStep_spec64 :: "binary64 \<Rightarrow> binary64 \<Rightarrow> binary64 \<Rightarrow> binary64" where
  "humidityStep_spec64 temp humid x =
     (if fless (Finite 70 0) humid
      then (if fless (Finite 20 0) temp
            then fadd x (fmul (fsub humid (Finite 70 0)) literal_0_1)
            else fsub x (fmul (fsub humid (Finite 70 0)) literal_0_05))
      else x)"

definition timeOfDayStep_spec64 :: "int \<Rightarrow> binary64 \<Rightarrow> binary64" where
  "timeOfDayStep_spec64 h x = (if h < 6 \<or> h > 18 then fsub x (Finite 2 0) else x)"

definition perceivedTemperature_spec64 ::
  "binary64 \<Rightarrow> binary64 \<Rightarrow> binary64 \<Rightarrow> int \<Rightarrow> binary64" where
  "perceivedTemperature_spec64 temp wind humid h =
     Math_round64
       (timeOfDayStep_spec64 h (humidityStep_spec64 temp humid (windStep_spec64 wind temp)))"

text \<open>
  Re-normalizing, as the specification words it: the rounded fields of a normalized
  record are taken as a fresh raw observation. The record keeps no precipitation
  amount, only \<open>isRainy\<close>; an amount with the same sign test is put back.
\<close>

definition renormalize :: "WeatherData \<Rightarrow> WeatherData" where
  "renormalize r =
     getWeatherForecast_body (temperature r) (if isRainy r then 1 else 0)
       (windSpeed r) (humidity r) (hour r)"

text \<open>
  The reasons of the specification's decision, and the list of the rules that fire on
  a record, in the order the specification lists them.
\<close>

datatype reason = Cold | Rainy | Windy | NightAndCool

definition reasons_spec :: "WeatherData \<Rightarrow> reason list" where
  "reasons_spec w =
     (if perceivedTemp w < 15 then [Cold] else []) @
     (if isRainy w then [Rainy] else []) @
     (if windSpeed w > 20 \<and> perceivedTemp w < 20 then [Windy] else []) @
     (if (hour w < 6 \<or> hour w > 18) \<and> perceivedTemp w < 18 then [NightAndCool] else [])"

section \<open>Rounding\<close>

lemma Math_round_round: "Math_round x = of_int (round x)"
  by (simp add: Math_round_def round_def)

lemma Math_round_mono: "x \<le> y \<Longrightarrow> Math_round x \<le> Math_round y"
  by (simp add: Math_round_def floor_mono)

lemma Math_round_of_int: "Math_round (of_int k) = of_int k"
proof -
  have "\<lfloor>(of_int k :: real) + 1 / 2\<rfloor> = k" by linarith
  then show ?thesis by (simp add: Math_round_def)
qed

lemma Math_round_Ints: "x \<in> \<int> \<Longrightarrow> Math_round x = x"
  by (auto simp: Ints_def Math_round_of_int)

lemma Math_round_idem: "Math_round (Math_round x) = Math_round x"
  unfolding Math_round_def [of x] by (rule Math_round_of_int)

lemma Math_round_le_of_int: "x \<le> of_int k \<Longrightarrow> Math_round x \<le> of_int k"
  using Math_round_mono [of x "of_int k"] by (simp add: Math_round_of_int)

text \<open>
  Rounding a number that is whole, or that does not exceed a whole threshold, changes
  neither the threshold test nor, where the test succeeds, the number.
\<close>

lemma Math_round_whole_or_below:
  assumes "x \<in> \<int> \<or> x \<le> of_int k"
  shows "(of_int k < Math_round x) = (of_int k < x)"
    and "of_int k < x \<Longrightarrow> Math_round x = x"
proof -
  show "(of_int k < Math_round x) = (of_int k < x)"
    using assms Math_round_le_of_int [of x k] by (auto simp: Math_round_Ints)
  show "of_int k < x \<Longrightarrow> Math_round x = x"
    using assms by (auto simp: Math_round_Ints)
qed

section \<open>Facts about the binary64 operations\<close>

text \<open>
  \<open>round_ties_even\<close> returns a nearest integer: twice the distance to \<open>m / 2 ^ s\<close>,
  scaled by \<open>2 ^ s\<close>, is at most \<open>2 ^ s\<close>; and at a tie it returns the even neighbour.
\<close>

lemma round_ties_even_nearest:
  "\<bar>2 * (round_ties_even m s * 2 ^ s - m)\<bar> \<le> 2 ^ s"
proof -
  define q where "q = m div 2 ^ s"
  define r where "r = m mod 2 ^ s"
  have m: "m = q * 2 ^ s + r"
    unfolding q_def r_def by (rule div_mult_mod_eq [symmetric])
  have r0: "0 \<le> r" by (simp add: r_def)
  have r1: "r < 2 ^ s" by (simp add: r_def)
  show ?thesis
  proof (cases "2 * r > 2 ^ s \<or> (2 * r = 2 ^ s \<and> q mod 2 = 1)")
    case True
    then have "round_ties_even m s = q + 1"
      by (simp add: round_ties_even_def q_def r_def Let_def)
    moreover have "2 * r \<ge> 2 ^ s" using True by auto
    ultimately show ?thesis using m r0 r1 by (simp add: algebra_simps)
  next
    case False
    then have "round_ties_even m s = q"
      by (simp add: round_ties_even_def q_def r_def Let_def)
    moreover have "2 * r \<le> 2 ^ s" using False by auto
    ultimately show ?thesis using m r0 r1 by (simp add: algebra_simps)
  qed
qed

lemma round_ties_even_tie:
  "2 * (m mod 2 ^ s) = 2 ^ s \<Longrightarrow> even (round_ties_even m s)"
  by (auto simp: round_ties_even_def Let_def)

text \<open>A value that is a finite binary64 number already is not changed by the rounding.\<close>

lemma round_binary64_exact:
  "bitlen \<bar>m\<bar> \<le> 53 \<Longrightarrow> - 1074 \<le> e \<Longrightarrow> bitlen \<bar>m\<bar> + e \<le> 1024 \<Longrightarrow>
   round_binary64 m e = Finite m e"
  by (simp add: round_binary64_def finite_or_infinity_def Let_def)

text \<open>
  The two literals lie within half a unit in the last place of one tenth and of one
  twentieth: they are the nearest binary64 numbers.
\<close>

lemma literal_0_1_nearest:
  "literal_0_1 = Finite 3602879701896397 (- 55) \<and>
   \<bar>dyadic 3602879701896397 (- 55) - 1 / 10\<bar> < dyadic 1 (- 57)"
  by (simp add: literal_0_1_def dyadic_def)

lemma literal_0_05_nearest:
  "literal_0_05 = Finite 3602879701896397 (- 56) \<and>
   \<bar>dyadic 3602879701896397 (- 56) - 5 / 100\<bar> < dyadic 1 (- 58)"
  by (simp add: literal_0_05_def dyadic_def)

text \<open>
  Well-known values of the language, as a check of the operations:
  \<^verbatim>\<open>0.1 + 0.2 = 0.30000000000000004\<close>, \<^verbatim>\<open>6 * 0.1 = 0.6000000000000001\<close>,
  \<^verbatim>\<open>2 ** 53 + 1 = 2 ** 53\<close>, \<^verbatim>\<open>2 ** 53 + 3 = 2 ** 53 + 4\<close>, the largest number plus
  half a unit in its last place is \<^verbatim>\<open>Infinity\<close> and plus a quarter is itself,
  \<^verbatim>\<open>1.5e-323 * 0.5 = 1e-323\<close> among the subnormal numbers, \<^verbatim>\<open>Math.round(2.5) = 3\<close>,
  \<^verbatim>\<open>Math.round(-2.5) = -2\<close> and \<^verbatim>\<open>Math.round(0.49999999999999994) = 0\<close>.
\<close>

lemma binary64_known_values:
  "fadd literal_0_1 (Finite 3602879701896397 (- 54)) = Finite 5404319552844596 (- 54)"
  "fmul (Finite 6 0) literal_0_1 = Finite 5404319552844596 (- 53)"
  "fadd (Finite 9007199254740992 0) (Finite 1 0) = Finite 4503599627370496 1"
  "fadd (Finite 9007199254740992 0) (Finite 3 0) = Finite 4503599627370498 1"
  "fadd (Finite 9007199254740991 971) (Finite 1 970) = PosInfinity"
  "fadd (Finite 9007199254740991 971) (Finite 1 969) = Finite 9007199254740991 971"
  "fmul (Finite 3 (- 1074)) (Finite 1 (- 1)) = Finite 2 (- 1074)"
  "Math_round64 (Finite 5 (- 1)) = Finite 3 0"
  "Math_round64 (Finite (- 5) (- 1)) = Finite (- 2) 0"
  "Math_round64 (Finite 9007199254740991 (- 54)) = Finite 0 0"
  by code_simp+

text \<open>
  Re-normalizing at night in binary64: the temperature \<^verbatim>\<open>0.49999999999999994\<close> with
  wind 10 and humidity 50 at hour 2 has the perceived temperature
  \<^verbatim>\<open>Math.round(0.49999999999999994 - 2) = Math.round(-1.5) = -1\<close>, because the
  subtraction rounds onto the tie; its normalized record holds the temperature 0 and
  has the perceived temperature \<^verbatim>\<open>Math.round(0 - 2) = -2\<close>.
\<close>

lemma renormalize_night_binary64:
  "getWeatherForecast_perceivedTemp64 (Finite 9007199254740991 (- 54)) (Finite 10 0)
     (Finite 50 0) 2 = Finite (- 1) 0"
  "getWeatherForecast_perceivedTemp64 (Math_round64 (Finite 9007199254740991 (- 54)))
     (Math_round64 (Finite 10 0)) (Math_round64 (Finite 50 0)) 2 = Finite (- 2) 0"
  by code_simp+

section \<open>Helper facts about the additive normalizer\<close>

lemmas thresholds =
  HIGH_WIND_THRESHOLD_def HIGH_HUMIDITY_THRESHOLD_def MORNING_HOUR_def EVENING_HOUR_def

lemma body_perceivedTemp_precip:
  "perceivedTemp (getWeatherForecast_body temp precip wind humid h) =
   perceivedTemp (getWeatherForecast_body temp precip' wind humid h)"
  by (simp add: getWeatherForecast_body_def Let_def)

lemma renormalize_fields:
  "renormalize (getWeatherForecast_body temp precip wind humid h) =
   getWeatherForecast_body (Math_round temp) (if precip > 0 then 1 else 0)
     (Math_round wind) (Math_round humid) h"
  by (simp add: renormalize_def getWeatherForecast_body_def Let_def)

lemma body_whole_temperature:
  assumes "wind \<in> \<int> \<or> wind \<le> 20" and "humid \<in> \<int> \<or> humid \<le> 70"
  shows "perceivedTemp (getWeatherForecast_body temp p' (Math_round wind) (Math_round humid) h) =
         perceivedTemp (getWeatherForecast_body temp p wind humid h)"
proof -
  have w: "(20 < Math_round wind) = (20 < wind)" "20 < wind \<Longrightarrow> Math_round wind = wind"
    using Math_round_whole_or_below [of wind 20] assms(1) by simp_all
  have u: "(70 < Math_round humid) = (70 < humid)" "70 < humid \<Longrightarrow> Math_round humid = humid"
    using Math_round_whole_or_below [of humid 70] assms(2) by simp_all
  show ?thesis
    by (simp add: getWeatherForecast_body_def Let_def thresholds w u)
qed

lemma body_no_adjustment:
  assumes "wind \<le> 20" and "humid \<le> 70" and "6 \<le> h" and "h \<le> 18"
  shows "perceivedTemp (getWeatherForecast_body temp p wind humid h) = Math_round temp"
  using assms by (simp add: getWeatherForecast_body_def Let_def thresholds)

text \<open>
  In exact arithmetic the statements of part_000 compute the nearest integer of the
  specification's expression.
\<close>

lemma body_exact_arithmetic:
  "perceivedTemp (getWeatherForecast_body temp precip wind humid h) =
     of_int (perceivedTemperature_spec temp wind humid h)"
  by (simp add: getWeatherForecast_body_def perceivedTemperature_spec_def
      windAdjustment_spec_def humidityAdjustment_spec_def timeOfDayAdjustment_spec_def
      Math_round_round thresholds Let_def)

lemma page_example_wind_30:
  "perceivedTemp (getWeatherForecast_page_body pow 10 0 30 50 14) = 10"
  by (simp add: getWeatherForecast_page_body_def Math_round_def)

section \<open>The perceived temperature of part_000\<close>

text \<open>
  At 17 degrees, wind 26, humidity 88 and hour 14 the specification's expression is
  \<open>17 - 0.6 - 0.9 = 15.5\<close>, whose nearest integer is 16. The code computes
  \<^verbatim>\<open>(26 - 20) * 0.1 = 0.6000000000000001\<close>, \<^verbatim>\<open>17 - 0.6000000000000001 = 16.4\<close>,
  \<^verbatim>\<open>(88 - 70) * 0.05 = 0.9\<close> and \<^verbatim>\<open>16.4 - 0.9 = 15.499999999999998\<close>, and returns 15.
\<close>

theorem perceivedTemp_tie_counterexample:
  "getWeatherForecast_perceivedTemp64 (Finite 17 0) (Finite 26 0) (Finite 88 0) 14 = Finite 15 0 \<and>
   perceivedTemperature_spec 17 26 88 14 = 16"
proof
  show "getWeatherForecast_perceivedTemp64 (Finite 17 0) (Finite 26 0) (Finite 88 0) 14 = Finite 15 0"
    by code_simp
  show "perceivedTemperature_spec 17 26 88 14 = 16"
    by (simp add: perceivedTemperature_spec_def windAdjustment_spec_def
        humidityAdjustment_spec_def timeOfDayAdjustment_spec_def round_def)
qed

text \<open>
  C1 (amended). For every raw observation (temperature, precipitation, windSpeed,
  humidity, hour), the normalizer of part_000 computes the perceived temperature by
  starting from the raw temperature, subtracting \<open>(windSpeed - 20) * 0.1\<close> when the wind
  speed is above 20, then, when the humidity is above 70, adding \<open>(humidity - 70) * 0.1\<close>
  if the temperature is above 20 and subtracting \<open>(humidity - 70) * 0.05\<close> otherwise, then
  subtracting 2 when the hour is before 6 or after 18, and finally rounding the result
  to the nearest integer, no rounding to an integer being applied before; each
  subtraction, addition and multiplication is the binary64 operation of the language,
  on the binary64 numbers nearest to 0.1 and 0.05, so that the result can differ from
  the nearest integer of the exactly computed expression (15 instead of 16 above).
\<close>

theorem perceivedTemp_binary64_steps:
  "getWeatherForecast_perceivedTemp64 temp wind humid h =
     perceivedTemperature_spec64 temp wind humid h"
  by (simp add: getWeatherForecast_perceivedTemp64_def perceivedTemperature_spec64_def
      windStep_spec64_def humidityStep_spec64_def timeOfDayStep_spec64_def
      HIGH_WIND_THRESHOLD64_def HIGH_HUMIDITY_THRESHOLD64_def
      MORNING_HOUR_def EVENING_HOUR_def Let_def)

theorem perceivedTemp_binary64_steps_witness:
  "getWeatherForecast_perceivedTemp64 (Finite 25 0) (Finite 102 0) (Finite 97 0) 3 =
     perceivedTemperature_spec64 (Finite 25 0) (Finite 102 0) (Finite 97 0) 3 \<and>
   getWeatherForecast_perceivedTemp64 (Finite 25 0) (Finite 102 0) (Finite 97 0) 3 = Finite 17 0"
proof
  show "getWeatherForecast_perceivedTemp64 (Finite 25 0) (Finite 102 0) (Finite 97 0) 3 =
     perceivedTemperature_spec64 (Finite 25 0) (Finite 102 0) (Finite 97 0) 3"
    by (rule perceivedTemp_binary64_steps)
  show "getWeatherForecast_perceivedTemp64 (Finite 25 0) (Finite 102 0) (Finite 97 0) 3 = Finite 17 0"
    by code_simp
qed

section \<open>The coat decision\<close>

text \<open>
  C2. For every normalized weather record, the decision is \<open>True\<close> if and only if at
  least one of the four rules holds: the perceived temperature is below 15 (cold), the
  record is rainy, the wind speed is above 20 and the perceived temperature below 20
  (windy and cool), or the hour is before 6 or after 18 and the perceived temperature
  below 18 (night and cool).
\<close>

theorem shouldTakeCoat_iff_rules:
  "shouldTakeCoat (Some w) =
     (perceivedTemp w < 15 \<or> isRainy w \<or>
      (windSpeed w > 20 \<and> perceivedTemp w < 20) \<or>
      ((hour w < 6 \<or> hour w > 18) \<and> perceivedTemp w < 18))"
  by (simp add: shouldTakeCoat_def thresholds)

section \<open>The worked example with wind 30\<close>

text \<open>
  C3. On temperature 10, precipitation 0, wind speed 30, humidity 50 and hour 14 the
  normalizer of part_000 returns the perceived temperature 9, which is the raw 10 less
  the wind adjustment \<open>(30 - 20) * 0.1 = 1\<close>; the cold rule (perceived temperature below
  15) holds and the decision is to take the coat.
\<close>

theorem example_wind_30:
  "getWeatherForecast (Some (Some [Some 10, Some 0, Some 30, Some 50])) 14 =
     Inr \<lparr>temperature = 10, isRainy = False, windSpeed = 30, humidity = 50,
          hour = 14, perceivedTemp = 9\<rparr> \<and>
   perceivedTemp (getWeatherForecast_body 10 0 30 50 14) = 10 - (30 - 20) * 0.1 \<and>
   perceivedTemp (getWeatherForecast_body 10 0 30 50 14) < 15 \<and>
   shouldTakeCoat (Some (getWeatherForecast_body 10 0 30 50 14))"
  by (simp add: getWeatherForecast_def getWeatherForecast_try_def nullish_def
      getWeatherForecast_body_def Math_round_def thresholds shouldTakeCoat_def)

section \<open>Re-normalizing a normalized record\<close>

text \<open>
  The raw observation 10.4 degrees, wind 26, humidity 50, hour 14 has the perceived
  temperature \<open>round (10.4 - 0.6) = 10\<close>. Its normalized record holds the temperature 10
  and the wind 26, and normalizing that record gives \<open>round (10 - 0.6) = 9\<close>.
\<close>

theorem renormalize_counterexample:
  "perceivedTemp (getWeatherForecast_body (52 / 5) 0 26 50 14) = 10 \<and>
   perceivedTemp (renormalize (getWeatherForecast_body (52 / 5) 0 26 50 14)) = 9 \<and>
   perceivedTemp (renormalize (getWeatherForecast_body (52 / 5) 0 26 50 14)) \<noteq>
     perceivedTemp (getWeatherForecast_body (52 / 5) 0 26 50 14)"
  by (simp add: renormalize_def getWeatherForecast_body_def Math_round_def thresholds)

text \<open>
  C4 (amended). For every raw observation whose wind speed is a whole number or at
  most 20, whose humidity is a whole number or at most 70, and whose temperature is a
  whole number unless no adjustment applies at all (wind speed at most 20, humidity at
  most 70 and the hour from 6 to 18), applying the normalizer to the normalized record
  it produced yields the same perceived temperature as the first normalization.

  A fractional temperature with the time-of-day adjustment alone is left out: in exact
  arithmetic rounding commutes with subtracting 2, but the subtraction of the language
  can round onto a tie, and then the two perceived temperatures differ
  (lemma \<open>renormalize_night_binary64\<close>).
\<close>

theorem renormalize_stable:
  assumes "wind \<in> \<int> \<or> wind \<le> 20"
    and "humid \<in> \<int> \<or> humid \<le> 70"
    and "temp \<in> \<int> \<or> (wind \<le> 20 \<and> humid \<le> 70 \<and> 6 \<le> h \<and> h \<le> 18)"
  shows "perceivedTemp (renormalize (getWeatherForecast_body temp precip wind humid h)) =
         perceivedTemp (getWeatherForecast_body temp precip wind humid h)"
  using assms(3)
proof
  assume "temp \<in> \<int>"
  then have "Math_round temp = temp" by (rule Math_round_Ints)
  then show ?thesis
    by (simp add: renormalize_fields body_whole_temperature [OF assms(1) assms(2)])
next
  assume calm: "wind \<le> 20 \<and> humid \<le> 70 \<and> 6 \<le> h \<and> h \<le> 18"
  have w: "Math_round wind \<le> 20"
    using calm Math_round_le_of_int [of wind 20] by simp
  have u: "Math_round humid \<le> 70"
    using calm Math_round_le_of_int [of humid 70] by simp
  have "perceivedTemp (renormalize (getWeatherForecast_body temp precip wind humid h)) =
        Math_round (Math_round temp)"
    using calm by (simp add: renormalize_fields body_no_adjustment [OF w u])
  also have "\<dots> = Math_round temp" by (rule Math_round_idem)
  also have "\<dots> = perceivedTemp (getWeatherForecast_body temp precip wind humid h)"
    using calm by (simp add: body_no_adjustment)
  finally show ?thesis .
qed

theorem renormalize_stable_witness:
  "((30::real) \<in> \<int> \<or> (30::real) \<le> 20) \<and> ((85::real) \<in> \<int> \<or> (85::real) \<le> 70) \<and>
   (10::real) \<in> \<int> \<and>
   perceivedTemp (renormalize (getWeatherForecast_body 10 0 30 85 2)) =
     perceivedTemp (getWeatherForecast_body 10 0 30 85 2) \<and>
   (31 / 2 :: real) \<le> 20 \<and> (301 / 5 :: real) \<le> 70 \<and> (6::int) \<le> 14 \<and> (14::int) \<le> 18 \<and>
   perceivedTemp (renormalize (getWeatherForecast_body (53 / 5) 0 (31 / 2) (301 / 5) 14)) =
     perceivedTemp (getWeatherForecast_body (53 / 5) 0 (31 / 2) (301 / 5) 14) \<and>
   perceivedTemp (getWeatherForecast_body (53 / 5) 0 (31 / 2) (301 / 5) 14) = 11"
  using renormalize_stable [of 30 85 10 2 0]
    renormalize_stable [of "31 / 2" "301 / 5" "53 / 5" 14 0]
  by (simp add: getWeatherForecast_body_def Math_round_def thresholds)

section \<open>Monotonicity in wind speed and humidity\<close>

text \<open>
  Wind 21 and wind 22 at 10 degrees give 9.9 and 9.8, both rounded to 10; humidity 71
  and 72 at 25 degrees give 25.1 and 25.2, both rounded to 25; humidity 71 and 72 at
  10 degrees give 9.95 and 9.9, both rounded to 10. None of the three strict
  inequalities holds.
\<close>

theorem monotone_counterexample:
  "\<not> perceivedTemp (getWeatherForecast_body 10 0 22 50 14)
       < perceivedTemp (getWeatherForecast_body 10 0 21 50 14) \<and>
   \<not> perceivedTemp (getWeatherForecast_body 25 0 10 72 14)
       > perceivedTemp (getWeatherForecast_body 25 0 10 71 14) \<and>
   \<not> perceivedTemp (getWeatherForecast_body 10 0 10 72 14)
       < perceivedTemp (getWeatherForecast_body 10 0 10 71 14)"
  by (simp add: getWeatherForecast_body_def Math_round_def thresholds)

text \<open>
  C5 (amended). Holding all other input fields fixed: for any two wind speeds
  \<open>w1 < w2\<close> both above 20, the perceived temperature at \<open>w2\<close> is at most that at \<open>w1\<close>;
  for any two humidities \<open>h1 < h2\<close> both above 70, the perceived temperature at \<open>h2\<close> is
  at least that at \<open>h1\<close> when the temperature is above 20, and at most that at \<open>h1\<close>
  when the temperature is 20 or less.
\<close>

theorem perceivedTemp_monotone:
  "(20 < w1 \<and> w1 < w2 \<longrightarrow>
      perceivedTemp (getWeatherForecast_body temp precip w2 humid h)
        \<le> perceivedTemp (getWeatherForecast_body temp precip w1 humid h)) \<and>
   (70 < h1 \<and> h1 < h2 \<and> temp > 20 \<longrightarrow>
      perceivedTemp (getWeatherForecast_body temp precip wind h1 h)
        \<le> perceivedTemp (getWeatherForecast_body temp precip wind h2 h)) \<and>
   (70 < h1 \<and> h1 < h2 \<and> temp \<le> 20 \<longrightarrow>
      perceivedTemp (getWeatherForecast_body temp precip wind h2 h)
        \<le> perceivedTemp (getWeatherForecast_body temp precip wind h1 h))"
  by (auto simp: getWeatherForecast_body_def Let_def thresholds intro!: Math_round_mono)

theorem perceivedTemp_monotone_witness:
  "((20::real) < 21 \<and> (21::real) < 40 \<and>
      perceivedTemp (getWeatherForecast_body 10 0 40 50 14)
        \<le> perceivedTemp (getWeatherForecast_body 10 0 21 50 14)) \<and>
   ((70::real) < 71 \<and> (71::real) < 95 \<and> (25::real) > 20 \<and>
      perceivedTemp (getWeatherForecast_body 25 0 10 71 14)
        \<le> perceivedTemp (getWeatherForecast_body 25 0 10 95 14)) \<and>
   ((70::real) < 71 \<and> (71::real) < 95 \<and> (10::real) \<le> 20 \<and>
      perceivedTemp (getWeatherForecast_body 10 0 10 95 14)
        \<le> perceivedTemp (getWeatherForecast_body 10 0 10 71 14))"
  using perceivedTemp_monotone [of 21 40 10 0 50 14 71 95 10]
    perceivedTemp_monotone [of 21 40 25 0 50 14 71 95 10]
  by simp

section \<open>Totality and the defaults of missing fields\<close>

text \<open>
  C6. The normalizer is deterministic and total. In both revisions, once the response
  carries current data (in part_000: with at least four variable slots), the function
  returns a normalized record and throws nothing, whatever the four numbers are,
  negative wind speed and humidity outside 0 to 100 included; a field that is missing
  is replaced by 0 before the computation. The result is a function of the four
  fields and the hour, so equal inputs give equal outputs.
\<close>

theorem normalizer_total:
  "getWeatherForecast (Some (Some (t # p # w # u # rest))) h =
     Inr (getWeatherForecast_body (nullish t 0) (nullish p 0) (nullish w 0) (nullish u 0) h) \<and>
   getWeatherForecast_page pow (Some c) h =
     Inr (getWeatherForecast_page_body pow (nullish (temperature_2m c) 0)
            (nullish (precipitation c) 0) (nullish (windspeed_10m c) 0)
            (nullish (relativehumidity_2m c) 0) h) \<and>
   nullish None (0::real) = 0"
  by (simp add: getWeatherForecast_def getWeatherForecast_try_def
      getWeatherForecast_page_def getWeatherForecast_page_try_def nullish_def)

section \<open>The decision carries no reasons\<close>

text \<open>
  A cold, dry record and a warm, rainy record get the same answer from
  \<^verbatim>\<open>shouldTakeCoat\<close>, although different rules fire on them: the boolean is all the
  function returns, and it does not tell which rules fired.
\<close>

theorem reasons_counterexample:
  "shouldTakeCoat (Some \<lparr>temperature = 10, isRainy = False, windSpeed = 5, humidity = 50,
                          hour = 14, perceivedTemp = 10\<rparr>) =
   shouldTakeCoat (Some \<lparr>temperature = 22, isRainy = True, windSpeed = 5, humidity = 40,
                          hour = 12, perceivedTemp = 22\<rparr>) \<and>
   reasons_spec \<lparr>temperature = 10, isRainy = False, windSpeed = 5, humidity = 50,
                 hour = 14, perceivedTemp = 10\<rparr> = [Cold] \<and>
   reasons_spec \<lparr>temperature = 22, isRainy = True, windSpeed = 5, humidity = 40,
                 hour = 12, perceivedTemp = 22\<rparr> = [Rainy]"
  by (simp add: shouldTakeCoat_def reasons_spec_def thresholds)

text \<open>
  C7 (amended). For every normalized weather record, the decision evaluator produces
  the boolean alone, without a list of reasons; the boolean is \<open>True\<close> exactly when the
  ordered list of the rules that fire on the record (cold, rainy, windy and cool,
  night and cool, in this order) is not empty.
\<close>

theorem shouldTakeCoat_reasons:
  "shouldTakeCoat (Some w) = (reasons_spec w \<noteq> [])"
  by (simp add: shouldTakeCoat_def reasons_spec_def thresholds)

section \<open>The two heuristics\<close>

text \<open>
  C8. The additive model of part_000 and the wind-chill / heat-index formula of
  page.tsx are not numerically reconcilable: for some raw observation the two
  normalizers return different perceived temperatures. At 20 degrees, wind 40,
  humidity 50 and hour 12 the first gives 18 and the second 20, whatever
  \<^verbatim>\<open>Math.pow\<close> computes.
\<close>

theorem heuristics_differ:
  "\<exists>temp precip wind humid h.
     perceivedTemp (getWeatherForecast_body temp precip wind humid h) \<noteq>
     perceivedTemp (getWeatherForecast_page_body pow temp precip wind humid h)"
proof -
  have "perceivedTemp (getWeatherForecast_body 20 0 40 50 12) = 18"
    by (simp add: getWeatherForecast_body_def Math_round_def thresholds)
  moreover have "perceivedTemp (getWeatherForecast_page_body pow 20 0 40 50 12) = 20"
    by (simp add: getWeatherForecast_page_body_def Math_round_def)
  ultimately have "perceivedTemp (getWeatherForecast_body 20 0 40 50 12) \<noteq>
     perceivedTemp (getWeatherForecast_page_body pow 20 0 40 50 12)"
    by simp
  then show ?thesis by blast
qed

text \<open>
  C9. In the normalizer of page.tsx, for every input whose raw temperature lies
  between 10 and 27 inclusive, the perceived temperature is exactly the rounded raw
  temperature, whatever the wind speed, the humidity and the hour are.
\<close>

theorem page_mid_range:
  "10 \<le> temp \<Longrightarrow> temp \<le> 27 \<Longrightarrow>
   perceivedTemp (getWeatherForecast_page_body pow temp precip wind humid h) = Math_round temp"
  by (simp add: getWeatherForecast_page_body_def)

theorem page_mid_range_witness:
  "(10::real) \<le> 102 / 5 \<and> (102 / 5 :: real) \<le> 27 \<and>
   perceivedTemp (getWeatherForecast_page_body (powr) (102 / 5) 3 35 90 2) = 20"
  using page_mid_range [of "102 / 5" "(powr)" 3 35 90 2] by (simp add: Math_round_def)

section \<open>No weather yet\<close>

text \<open>
  C10. When no weather record is available (the weather state is null), the decision
  function answers \<open>False\<close>: it neither fails nor recommends a coat.
\<close>

theorem shouldTakeCoat_null:
  "shouldTakeCoat None = False"
  by (simp add: shouldTakeCoat_def)

end
